theory Spec2Isabelle
  imports Main
begin

section \<open>The history fetch of the client: \<open>GetHistory.get_history\<close>\<close>

text \<open>
  The source is \<^verbatim>\<open>pyrogram/methods/messages/get_history.py\<close>: one coroutine,
  \<^verbatim>\<open>get_history\<close>, that rewrites its pagination arguments into the fields of the raw
  request \<^verbatim>\<open>raw.functions.messages.GetHistory\<close>, hands that request to
  \<^verbatim>\<open>self.invoke\<close> with \<^verbatim>\<open>sleep_threshold=60\<close>, parses the reply with
  \<^verbatim>\<open>utils.parse_messages\<close> and reverses the parsed list when \<^verbatim>\<open>reverse\<close> is set.

  Python's integers are unbounded, so they are \<open>int\<close>. An exception raised by a
  collaborator is the left injection of a sum; the coroutine has no \<^verbatim>\<open>try\<close>, so each
  one ends the call.
\<close>

subsection \<open>Data\<close>

text \<open>\<^verbatim>\<open>chat_id: Union[int, str]\<close>.\<close>

datatype chat_ref = ChatInt int | ChatStr string

text \<open>
  Modelled from the spec: the class \<^verbatim>\<open>datetime\<close> and \<^verbatim>\<open>utils.datetime_to_timestamp\<close>
  are not part of the source file. The spec calls \<^verbatim>\<open>offset_date\<close> a timestamp whose
  epoch-zero value means unset, passed through to the wire as a protocol timestamp in
  unix seconds. A datetime is therefore the number of seconds it lies after the epoch, the
  constructor is Python's \<^verbatim>\<open>datetime.fromtimestamp\<close>, and the conversion reads the
  seconds back.
\<close>

datatype datetime = datetime_fromtimestamp int

text \<open>
  Modelled from the spec: \<^verbatim>\<open>utils.datetime_to_timestamp\<close>, absent from the source
  file; the protocol timestamp of a datetime is its unix seconds.
\<close>

fun datetime_to_timestamp :: "datetime \<Rightarrow> int" where
  "datetime_to_timestamp (datetime_fromtimestamp secs) = secs"

text \<open>
  The raw request object, with the keyword arguments of the constructor call at lines
  90 to 99 of the source as its fields. The peer descriptor is whatever
  \<^verbatim>\<open>resolve_peer\<close> returns.
\<close>

record 'p GetHistory =
  peer :: 'p
  offset_id :: int
  offset_date :: int
  add_offset :: int
  limit :: int
  max_id :: int
  min_id :: int
  hash :: int

text \<open>
  The three coroutines that \<^verbatim>\<open>get_history\<close> awaits live outside the source file:
  \<^verbatim>\<open>self.resolve_peer\<close>, \<^verbatim>\<open>self.invoke\<close> and \<^verbatim>\<open>utils.parse_messages\<close> (which
  receives the client as its first argument). They are parameters of the model. Each is
  awaited at most once in a call of \<^verbatim>\<open>get_history\<close>, so a function from its arguments
  to an outcome covers whatever it does within that call; two calls made at different
  moments are two clients.
\<close>

record ('p, 'r, 'm, 'e) client =
  resolve_peer :: "chat_ref \<Rightarrow> 'e + 'p"
  invoke :: "'p GetHistory \<Rightarrow> int \<Rightarrow> 'e + 'r"
  parse_messages :: "'r \<Rightarrow> 'e + 'm list"

text \<open>
  What \<^verbatim>\<open>get_history\<close> does to the outside world is the sequence of those awaits, in
  the order Python evaluates them. The model returns it beside the result. The request
  "sent on the wire" is the one \<^verbatim>\<open>invoke\<close> is applied to: the result is computed
  from that application, and the sequence records it as an \<open>Invoke\<close> entry.
\<close>

datatype ('p, 'r) call =
  ResolvePeer chat_ref
| Invoke "'p GetHistory" int
| ParseMessages 'r

subsection \<open>The coroutine\<close>

text \<open>
  Line 85 rebinds \<^verbatim>\<open>offset_id\<close> with \<^verbatim>\<open>offset_id or (1 if reverse else 0)\<close>; an
  \<^verbatim>\<open>int\<close> is falsy exactly when it is 0. The keyword arguments of the constructor are
  evaluated left to right, so \<^verbatim>\<open>resolve_peer\<close> is awaited first, then the request is
  built and invoked, then the reply is parsed; lines 104 to 107 reverse the parsed list
  in place and return it.
\<close>

definition get_history ::
  "('p, 'r, 'm, 'e) client \<Rightarrow> chat_ref \<Rightarrow> int \<Rightarrow> int \<Rightarrow> int \<Rightarrow> datetime \<Rightarrow> bool
     \<Rightarrow> ('e + 'm list) \<times> ('p, 'r) call list" where
  "get_history self chat_id limit_arg offset_arg offset_id_arg offset_date_arg reverse =
     (let offset_id_1 = (if offset_id_arg \<noteq> 0 then offset_id_arg else (if reverse then 1 else 0))
      in case resolve_peer self chat_id of
           Inl e \<Rightarrow> (Inl e, [ResolvePeer chat_id])
         | Inr p \<Rightarrow>
             (let request = \<lparr>peer = p,
                             offset_id = offset_id_1,
                             offset_date = datetime_to_timestamp offset_date_arg,
                             add_offset = offset_arg * (if reverse then - 1 else 1)
                                            - (if reverse then limit_arg else 0),
                             limit = limit_arg,
                             max_id = 0,
                             min_id = 0,
                             hash = 0\<rparr>
              in case invoke self request 60 of
                   Inl e \<Rightarrow> (Inl e, [ResolvePeer chat_id, Invoke request 60])
                 | Inr r \<Rightarrow>
                     (case parse_messages self r of
                        Inl e \<Rightarrow>
                          (Inl e, [ResolvePeer chat_id, Invoke request 60, ParseMessages r])
                      | Inr messages \<Rightarrow>
                          (Inr (if reverse then rev messages else messages),
                           [ResolvePeer chat_id, Invoke request 60, ParseMessages r]))))"

text \<open>
  Lines 87 to 107 seen from a request \<open>q\<close> and a threshold \<open>t\<close>: what the call
  returns, and which awaits it makes, when it applies \<^verbatim>\<open>invoke\<close> to \<open>q\<close> and
  \<open>t\<close>, parses the reply and reverses on demand. It is notation for stating that a call
  of \<^verbatim>\<open>get_history\<close> handed \<open>q\<close> and \<open>t\<close> to \<^verbatim>\<open>invoke\<close>: the outcome is
  computed from \<open>invoke self q t\<close>, and \<open>Invoke q t\<close> is the second await.
\<close>

abbreviation handed_to_invoke ::
  "('p, 'r, 'm, 'e) client \<Rightarrow> chat_ref \<Rightarrow> bool \<Rightarrow> 'p GetHistory \<Rightarrow> int
     \<Rightarrow> ('e + 'm list) \<times> ('p, 'r) call list" where
  "handed_to_invoke self chat_id reverse q t \<equiv>
     (case invoke self q t of
        Inl e \<Rightarrow> (Inl e, [ResolvePeer chat_id, Invoke q t])
      | Inr r \<Rightarrow>
          (case parse_messages self r of
             Inl e \<Rightarrow> (Inl e, [ResolvePeer chat_id, Invoke q t, ParseMessages r])
           | Inr messages \<Rightarrow>
               (Inr (if reverse then rev messages else messages),
                [ResolvePeer chat_id, Invoke q t, ParseMessages r])))"

text \<open>
  The signature, lines 32 to 40: every parameter after \<^verbatim>\<open>chat_id\<close> has a default. A
  call names the ones it passes; the others take the default of the signature.
\<close>

record kwargs =
  kw_limit :: "int option"
  kw_offset :: "int option"
  kw_offset_id :: "int option"
  kw_offset_date :: "datetime option"
  kw_reverse :: "bool option"

definition no_kwargs :: kwargs where
  "no_kwargs = \<lparr>kw_limit = None, kw_offset = None, kw_offset_id = None,
                 kw_offset_date = None, kw_reverse = None\<rparr>"

definition call_get_history ::
  "('p, 'r, 'm, 'e) client \<Rightarrow> chat_ref \<Rightarrow> kwargs \<Rightarrow> ('e + 'm list) \<times> ('p, 'r) call list" where
  "call_get_history self chat_id kw =
     get_history self chat_id
       (case kw_limit kw of None \<Rightarrow> 100 | Some v \<Rightarrow> v)
       (case kw_offset kw of None \<Rightarrow> 0 | Some v \<Rightarrow> v)
       (case kw_offset_id kw of None \<Rightarrow> 0 | Some v \<Rightarrow> v)
       (case kw_offset_date kw of None \<Rightarrow> datetime_fromtimestamp 0 | Some v \<Rightarrow> v)
       (case kw_reverse kw of None \<Rightarrow> False | Some v \<Rightarrow> v)"

section \<open>The invocation wrapper\<close>

text \<open>
  Modelled from the spec: \<^verbatim>\<open>self.invoke\<close> is outside the source file, which only
  calls it with \<^verbatim>\<open>sleep_threshold=60\<close>. The spec describes it as
  \<^verbatim>\<open>InvocationWrapper.invoke(call, floodWaitThreshold)\<close> over a transport with the single
  operation \<^verbatim>\<open>send(requestValue) -> responseValue | RateLimitSignal(duration) |
  TransientError | FatalError\<close>, and gives the error taxonomy \<^verbatim>\<open>UnknownPeer\<close>,
  \<^verbatim>\<open>AmbiguousReference\<close>, \<^verbatim>\<open>FloodWait(duration)\<close>, \<^verbatim>\<open>RemoteUnavailable\<close>,
  \<^verbatim>\<open>ProtocolError\<close> (with the original cause). Durations are whole seconds.
\<close>

datatype error =
  UnknownPeer
| AmbiguousReference
| FloodWait int
| RemoteUnavailable
| ProtocolError string

text \<open>
  Modelled from the spec: what the transport's \<^verbatim>\<open>send\<close> answers, absent from the
  source file; the four alternatives of section 6.
\<close>

datatype 'r response =
  Reply 'r
| RateLimitSignal int
| TransientError
| FatalError string

text \<open>
  Modelled from the spec: the two things the wrapper of section 4.3 does besides
  returning, a send of the call and a suspend for a duration; a run records them in order.
\<close>

datatype 'q action = Send 'q | Suspend int

text \<open>
  Modelled from the spec: the state machine of section 4.3. An ATTEMPT sends the call.
  A reply ends the run with that reply. A rate-limit signal \<open>w\<close> with \<open>w\<close> at most the
  threshold goes through WAIT-RETRY (suspend for \<open>w\<close>) back to ATTEMPT; a longer one
  fails with \<open>FloodWait w\<close>. A transient error goes back to ATTEMPT while the retry
  budget lasts and fails with \<open>RemoteUnavailable\<close> when it is used up. Any other error
  fails with \<open>ProtocolError\<close>.

  The transport is a function of the call and of its own state. It may signal a rate
  limit for ever, so the machine may not stop: the first argument bounds the number of
  attempts. A run gives its outcome, \<open>None\<close> while it has not ended within that bound,
  and the sends and suspends it has made, in order, ended or not.
\<close>

fun InvocationWrapper_invoke ::
  "nat \<Rightarrow> ('q \<Rightarrow> 't \<Rightarrow> 'r response \<times> 't) \<Rightarrow> nat \<Rightarrow> 'q \<Rightarrow> int \<Rightarrow> 't
     \<Rightarrow> (error + 'r) option \<times> 'q action list" where
  "InvocationWrapper_invoke 0 send budget call floodWaitThreshold t = (None, [])"
| "InvocationWrapper_invoke (Suc n) send budget call floodWaitThreshold t =
     (case send call t of
        (Reply r, t') \<Rightarrow> (Some (Inr r), [Send call])
      | (RateLimitSignal w, t') \<Rightarrow>
          if w \<le> floodWaitThreshold
          then (case InvocationWrapper_invoke n send budget call floodWaitThreshold t' of
                  (res, acts) \<Rightarrow> (res, Send call # Suspend w # acts))
          else (Some (Inl (FloodWait w)), [Send call])
      | (TransientError, t') \<Rightarrow>
          (case budget of
             0 \<Rightarrow> (Some (Inl RemoteUnavailable), [Send call])
           | Suc b \<Rightarrow>
               (case InvocationWrapper_invoke n send b call floodWaitThreshold t' of
                  (res, acts) \<Rightarrow> (res, Send call # acts)))
      | (FatalError cause, t') \<Rightarrow> (Some (Inl (ProtocolError cause)), [Send call]))"

text \<open>
  Modelled from the spec: the client of section 4.5, whose \<^verbatim>\<open>invoke\<close> is the
  invocation wrapper over the session's transport (\<open>send\<close>, in state \<open>t\<close>, with a retry
  budget) and whose peer resolver and parser raise errors of the taxonomy. A coroutine
  that awaits a run which has not ended has not ended either: for the caller that is the
  outcome \<open>Pending\<close>, beside the errors that are raised.
\<close>

datatype failure = Raised error | Pending

definition session_client ::
  "nat \<Rightarrow> ('p GetHistory \<Rightarrow> 't \<Rightarrow> 'r response \<times> 't) \<Rightarrow> nat \<Rightarrow> 't
     \<Rightarrow> (chat_ref \<Rightarrow> error + 'p) \<Rightarrow> ('r \<Rightarrow> error + 'm list)
     \<Rightarrow> ('p, 'r, 'm, failure) client" where
  "session_client attempts send budget t resolve parse =
     \<lparr>resolve_peer = (\<lambda>c. case resolve c of Inl e \<Rightarrow> Inl (Raised e) | Inr p \<Rightarrow> Inr p),
      invoke = (\<lambda>q floodWaitThreshold.
                  case fst (InvocationWrapper_invoke attempts send budget q floodWaitThreshold t) of
                    None \<Rightarrow> Inl Pending
                  | Some (Inl e) \<Rightarrow> Inl (Raised e)
                  | Some (Inr r) \<Rightarrow> Inr r),
      parse_messages = (\<lambda>r. case parse r of Inl e \<Rightarrow> Inl (Raised e) | Inr ms \<Rightarrow> Inr ms)\<rparr>"

section \<open>Concrete collaborators\<close>

text \<open>
  A small client for concrete runs: chat 1 and the name \<^verbatim>\<open>me\<close> resolve to peer 7, any
  other reference is unknown; every request is answered with the reply
  \<^verbatim>\<open>[A, B, C]\<close> (the characters of a string); parsing keeps each entry.
\<close>

definition demo_client :: "(nat, string, char, error) client" where
  "demo_client =
     \<lparr>resolve_peer = (\<lambda>c. if c = ChatInt 1 \<or> c = ChatStr ''me'' then Inr 7 else Inl UnknownPeer),
      invoke = (\<lambda>q t. Inr ''ABC''),
      parse_messages = (\<lambda>r. Inr r)\<rparr>"

text \<open>
  A client that shows what it is handed: its \<^verbatim>\<open>invoke\<close> answers with the request and
  the threshold it received, and its parser returns that one entry.
\<close>

definition echo_client :: "(nat, nat GetHistory \<times> int, nat GetHistory \<times> int, error) client" where
  "echo_client =
     \<lparr>resolve_peer = (\<lambda>c. if c = ChatInt 1 \<or> c = ChatStr ''me'' then Inr 7 else Inl UnknownPeer),
      invoke = (\<lambda>q t. Inr (q, t)),
      parse_messages = (\<lambda>r. Inr [r])\<rparr>"

text \<open>
  A transport whose state is the list of waits it will still ask for: each send takes
  the next one and signals it; once the list is empty it replies.
\<close>

definition flooding_transport :: "'q \<Rightarrow> int list \<Rightarrow> string response \<times> int list" where
  "flooding_transport call pending =
     (case pending of [] \<Rightarrow> (Reply ''ABC'', []) | w # ws \<Rightarrow> (RateLimitSignal w, ws))"

section \<open>What is sent, and what comes back\<close>

text \<open>
  The \<open>Invoke\<close> entry among the awaits of a call of \<^verbatim>\<open>get_history\<close>: there is
  one exactly when the peer resolves, and its fields and threshold are these.
\<close>

lemma Invoke_in_get_history:
  "Invoke q t \<in> set (snd (get_history self chat_id limit_arg offset_arg offset_id_arg
                              offset_date_arg reverse)) \<longleftrightarrow>
     (\<exists>p. resolve_peer self chat_id = Inr p \<and> t = 60 \<and>
          q = \<lparr>peer = p,
               offset_id = (if offset_id_arg \<noteq> 0 then offset_id_arg
                            else (if reverse then 1 else 0)),
               offset_date = datetime_to_timestamp offset_date_arg,
               add_offset = offset_arg * (if reverse then - 1 else 1)
                              - (if reverse then limit_arg else 0),
               limit = limit_arg, max_id = 0, min_id = 0, hash = 0\<rparr>)"
  by (auto simp: get_history_def Let_def split: sum.splits)


text \<open>The ways a call can end, and what each leaves behind.\<close>

lemma resolve_peer_error:
  "resolve_peer self chat_id = Inl e \<Longrightarrow>
     get_history self chat_id limit_arg offset_arg offset_id_arg offset_date_arg reverse
       = (Inl e, [ResolvePeer chat_id])"
  by (simp add: get_history_def)

lemma invoke_error:
  "Invoke q t \<in> set (snd (get_history self chat_id limit_arg offset_arg offset_id_arg
                              offset_date_arg reverse)) \<Longrightarrow>
   invoke self q t = Inl e \<Longrightarrow>
     get_history self chat_id limit_arg offset_arg offset_id_arg offset_date_arg reverse
       = (Inl e, [ResolvePeer chat_id, Invoke q t])"
  unfolding Invoke_in_get_history by (auto simp: get_history_def)

lemma get_history_trace:
  "(\<exists>e. resolve_peer self chat_id = Inl e
        \<and> get_history self chat_id limit_arg offset_arg offset_id_arg offset_date_arg reverse
            = (Inl e, [ResolvePeer chat_id]))
   \<or> (\<exists>p q. resolve_peer self chat_id = Inr p \<and>
         ((\<exists>e. invoke self q 60 = Inl e
               \<and> get_history self chat_id limit_arg offset_arg offset_id_arg offset_date_arg
                   reverse = (Inl e, [ResolvePeer chat_id, Invoke q 60]))
          \<or> (\<exists>r. invoke self q 60 = Inr r
                  \<and> get_history self chat_id limit_arg offset_arg offset_id_arg
                      offset_date_arg reverse
                      = (case parse_messages self r of
                           Inl e \<Rightarrow> Inl e
                         | Inr parsed \<Rightarrow> Inr (if reverse then rev parsed else parsed),
                         [ResolvePeer chat_id, Invoke q 60, ParseMessages r]))))"
proof (cases "resolve_peer self chat_id")
  case (Inl e)
  then show ?thesis by (simp add: get_history_def)
next
  case p: (Inr p)
  let ?q = "\<lparr>peer = p,
             offset_id = (if offset_id_arg \<noteq> 0 then offset_id_arg
                          else (if reverse then 1 else 0)),
             offset_date = datetime_to_timestamp offset_date_arg,
             add_offset = offset_arg * (if reverse then - 1 else 1)
                            - (if reverse then limit_arg else 0),
             limit = limit_arg, max_id = 0, min_id = 0, hash = 0\<rparr>"
  show ?thesis
  proof (cases "invoke self ?q 60")
    case (Inl e)
    with p have "invoke self ?q 60 = Inl e
        \<and> get_history self chat_id limit_arg offset_arg offset_id_arg offset_date_arg reverse
            = (Inl e, [ResolvePeer chat_id, Invoke ?q 60])"
      by (simp add: get_history_def)
    with p show ?thesis by blast
  next
    case r: (Inr r)
    with p have "invoke self ?q 60 = Inr r
        \<and> get_history self chat_id limit_arg offset_arg offset_id_arg offset_date_arg reverse
            = (case parse_messages self r of
                 Inl e \<Rightarrow> Inl e
               | Inr parsed \<Rightarrow> Inr (if reverse then rev parsed else parsed),
               [ResolvePeer chat_id, Invoke ?q 60, ParseMessages r])"
      by (simp add: get_history_def split: sum.splits)
    with p show ?thesis by blast
  qed
qed

lemma parse_messages_error:
  "ParseMessages r \<in> set (snd (get_history self chat_id limit_arg offset_arg offset_id_arg
                                   offset_date_arg reverse)) \<Longrightarrow>
   parse_messages self r = Inl e \<Longrightarrow>
     fst (get_history self chat_id limit_arg offset_arg offset_id_arg offset_date_arg reverse)
       = Inl e"
  using get_history_trace [of self chat_id limit_arg offset_arg offset_id_arg
      offset_date_arg reverse]
  by auto

lemma error_has_a_source:
  "fst (get_history self chat_id limit_arg offset_arg offset_id_arg offset_date_arg reverse)
     = Inl e \<Longrightarrow>
   resolve_peer self chat_id = Inl e
   \<or> (\<exists>q t. Invoke q t \<in> set (snd (get_history self chat_id limit_arg offset_arg
                                         offset_id_arg offset_date_arg reverse))
             \<and> invoke self q t = Inl e)
   \<or> (\<exists>r. ParseMessages r \<in> set (snd (get_history self chat_id limit_arg offset_arg
                                           offset_id_arg offset_date_arg reverse))
           \<and> parse_messages self r = Inl e)"
  using get_history_trace [of self chat_id limit_arg offset_arg offset_id_arg
      offset_date_arg reverse] resolve_peer_error [of self chat_id _ limit_arg offset_arg
      offset_id_arg offset_date_arg reverse]
  by (fastforce split: sum.splits)

lemma success_is_complete:
  "fst (get_history self chat_id limit_arg offset_arg offset_id_arg offset_date_arg reverse)
     = Inr ms \<Longrightarrow>
   \<exists>p q r parsed.
      resolve_peer self chat_id = Inr p \<and> invoke self q 60 = Inr r
      \<and> parse_messages self r = Inr parsed
      \<and> snd (get_history self chat_id limit_arg offset_arg offset_id_arg offset_date_arg
               reverse) = [ResolvePeer chat_id, Invoke q 60, ParseMessages r]
      \<and> ms = (if reverse then rev parsed else parsed)"
  using get_history_trace [of self chat_id limit_arg offset_arg offset_id_arg
      offset_date_arg reverse] resolve_peer_error [of self chat_id _ limit_arg offset_arg
      offset_id_arg offset_date_arg reverse]
  by (cases "resolve_peer self chat_id") (fastforce split: sum.splits)+

text \<open>
  Once the peer resolves to \<open>p\<close>, the call hands this request and the threshold 60 to
  \<^verbatim>\<open>invoke\<close>, and what it returns is made from the answer.
\<close>

lemma get_history_hands_over:
  "resolve_peer self chat_id = Inr p \<Longrightarrow>
   get_history self chat_id limit_arg offset_arg offset_id_arg offset_date_arg reverse
     = handed_to_invoke self chat_id reverse
         \<lparr>peer = p,
          offset_id = (if offset_id_arg \<noteq> 0 then offset_id_arg
                       else (if reverse then 1 else 0)),
          offset_date = datetime_to_timestamp offset_date_arg,
          add_offset = offset_arg * (if reverse then - 1 else 1)
                         - (if reverse then limit_arg else 0),
          limit = limit_arg, max_id = 0, min_id = 0, hash = 0\<rparr> 60"
  by (simp add: get_history_def Let_def split: sum.splits)

text \<open>What the echoing client returns for a request is that request.\<close>

lemma echo_client_shows_request:
  "handed_to_invoke echo_client chat_id reverse q t
     = (Inr [(q, t)], [ResolvePeer chat_id, Invoke q t, ParseMessages (q, t)])"
  by (simp add: echo_client_def)

section \<open>The wrapper at work\<close>

text \<open>
  The wrapper's first act in any attempt is a send of the call it was given.
\<close>

lemma attempt_starts_with_send:
  "\<exists>acts. snd (InvocationWrapper_invoke (Suc n) send budget call floodWaitThreshold t)
            = Send call # acts"
  by (cases "send call t")
     (auto split: response.splits nat.splits prod.splits)

text \<open>
  A signal within the threshold: the run is a send, a suspend for the wait, and then
  whatever a fresh run of the same call makes from the transport's next state.
\<close>

lemma signal_within_threshold:
  "send call t = (RateLimitSignal w, t') \<Longrightarrow> w \<le> floodWaitThreshold \<Longrightarrow>
   InvocationWrapper_invoke (Suc n) send budget call floodWaitThreshold t
     = (fst (InvocationWrapper_invoke n send budget call floodWaitThreshold t'),
        Send call # Suspend w # snd (InvocationWrapper_invoke n send budget call
                                       floodWaitThreshold t'))"
  by (simp split: prod.splits)

text \<open>A signal above the threshold ends the run at once, after the one send.\<close>

lemma signal_above_threshold:
  "send call t = (RateLimitSignal w, t') \<Longrightarrow> floodWaitThreshold < w \<Longrightarrow>
   InvocationWrapper_invoke (Suc n) send budget call floodWaitThreshold t
     = (Some (Inl (FloodWait w)), [Send call])"
  by simp

lemma reply_ends_run:
  "send call t = (Reply r, t') \<Longrightarrow>
   InvocationWrapper_invoke (Suc n) send budget call floodWaitThreshold t
     = (Some (Inr r), [Send call])"
  by simp

text \<open>
  However many waits the transport asks for, if each is at most the threshold the run
  ends with the reply, after one suspend per wait and one send more than suspends. The
  bound on attempts only has to exceed the number of waits.
\<close>

lemma absorbed_waits_then_reply:
  "\<forall>w \<in> set ws. w \<le> floodWaitThreshold \<Longrightarrow>
   InvocationWrapper_invoke (Suc (length ws + n)) flooding_transport budget call
       floodWaitThreshold ws
     = (Some (Inr ''ABC''), concat (map (\<lambda>w. [Send call, Suspend w]) ws) @ [Send call])"
  by (induction ws arbitrary: n) (simp_all add: flooding_transport_def)

section \<open>Properties of the fetch\<close>

text \<open>
  C1. Once the peer resolves, the call hands \<^verbatim>\<open>invoke\<close> a request (its outcome is
  computed from \<^verbatim>\<open>invoke\<close> applied to that request and the threshold 60) whose
  \<^verbatim>\<open>add_offset\<close> is \<^verbatim>\<open>offset * (-1 if reverse else 1) - (limit if reverse else 0)\<close>: the
  caller's offset when \<^verbatim>\<open>reverse\<close> is false, and \<^verbatim>\<open>-offset - limit\<close> when it is true.
\<close>

theorem add_offset_on_the_wire:
  "resolve_peer self chat_id = Inr p \<Longrightarrow>
   \<exists>q. get_history self chat_id limit_arg offset_arg offset_id_arg offset_date_arg reverse
          = handed_to_invoke self chat_id reverse q 60
      \<and> add_offset q = offset_arg * (if reverse then - 1 else 1)
                          - (if reverse then limit_arg else 0)
      \<and> (\<not> reverse \<longrightarrow> add_offset q = offset_arg)
      \<and> (reverse \<longrightarrow> add_offset q = - offset_arg - limit_arg)"
proof -
  assume p: "resolve_peer self chat_id = Inr p"
  let ?q = "\<lparr>peer = p,
             offset_id = (if offset_id_arg \<noteq> 0 then offset_id_arg
                          else (if reverse then 1 else 0)),
             offset_date = datetime_to_timestamp offset_date_arg,
             add_offset = offset_arg * (if reverse then - 1 else 1)
                            - (if reverse then limit_arg else 0),
             limit = limit_arg, max_id = 0, min_id = 0, hash = 0\<rparr>"
  have "get_history self chat_id limit_arg offset_arg offset_id_arg offset_date_arg reverse
          = handed_to_invoke self chat_id reverse ?q 60"
    by (rule get_history_hands_over [OF p])
  moreover have "add_offset ?q = offset_arg * (if reverse then - 1 else 1)
                                   - (if reverse then limit_arg else 0)"
    by simp
  moreover have "\<not> reverse \<longrightarrow> add_offset ?q = offset_arg"
    by simp
  moreover have "reverse \<longrightarrow> add_offset ?q = - offset_arg - limit_arg"
    by simp
  ultimately show ?thesis by blast
qed

text \<open>
  The scenario of the spec on the echoing client: \<^verbatim>\<open>offset=5, limit=3, reverse=false\<close>
  hands over \<^verbatim>\<open>add_offset=5\<close>; the same call with \<^verbatim>\<open>reverse=true\<close> hands over
  \<open>-8\<close> and gets its one entry back.
\<close>

theorem add_offset_on_the_wire_witness:
  "resolve_peer echo_client (ChatInt 1) = Inr 7
   \<and> (\<exists>q. fst (get_history echo_client (ChatInt 1) 3 5 0 (datetime_fromtimestamp 0) False)
            = Inr [(q, 60)] \<and> add_offset q = 5)
   \<and> (\<exists>q. fst (get_history echo_client (ChatInt 1) 3 5 0 (datetime_fromtimestamp 0) True)
            = Inr [(q, 60)] \<and> add_offset q = - 8)
   \<and> fst (get_history echo_client (ChatInt 1) 3 5 0 (datetime_fromtimestamp 0) False)
       = Inr [(\<lparr>peer = 7, offset_id = 0, offset_date = 0, add_offset = 5, limit = 3,
                 max_id = 0, min_id = 0, hash = 0\<rparr>, 60)]"
proof -
  have p: "resolve_peer echo_client (ChatInt 1) = Inr 7"
    by (simp add: echo_client_def)
  from add_offset_on_the_wire [OF p, of 3 5 0 "datetime_fromtimestamp 0" False]
  have fwd: "\<exists>q. fst (get_history echo_client (ChatInt 1) 3 5 0 (datetime_fromtimestamp 0) False)
                 = Inr [(q, 60)] \<and> add_offset q = 5"
    unfolding echo_client_shows_request by auto
  from add_offset_on_the_wire [OF p, of 3 5 0 "datetime_fromtimestamp 0" True]
  have bwd: "\<exists>q. fst (get_history echo_client (ChatInt 1) 3 5 0 (datetime_fromtimestamp 0) True)
                 = Inr [(q, 60)] \<and> add_offset q = - 8"
    unfolding echo_client_shows_request by auto
  have run: "fst (get_history echo_client (ChatInt 1) 3 5 0 (datetime_fromtimestamp 0) False)
       = Inr [(\<lparr>peer = 7, offset_id = 0, offset_date = 0, add_offset = 5, limit = 3,
                 max_id = 0, min_id = 0, hash = 0\<rparr>, 60)]"
    by (simp add: get_history_def echo_client_def Let_def)
  from p fwd bwd run show ?thesis by (intro conjI)
qed

text \<open>
  C2. Once the peer resolves, the request handed to \<^verbatim>\<open>invoke\<close> carries the caller's
  \<^verbatim>\<open>offset_id\<close> when that is not 0; a caller's 0 becomes 1 when \<^verbatim>\<open>reverse\<close> is true
  and stays 0 when it is false.
\<close>

theorem offset_id_on_the_wire:
  "resolve_peer self chat_id = Inr p \<Longrightarrow>
   \<exists>q. get_history self chat_id limit_arg offset_arg offset_id_arg offset_date_arg reverse
          = handed_to_invoke self chat_id reverse q 60
      \<and> (offset_id_arg \<noteq> 0 \<longrightarrow> offset_id q = offset_id_arg)
      \<and> (offset_id_arg = 0 \<and> reverse \<longrightarrow> offset_id q = 1)
      \<and> (offset_id_arg = 0 \<and> \<not> reverse \<longrightarrow> offset_id q = 0)"
proof -
  assume p: "resolve_peer self chat_id = Inr p"
  let ?q = "\<lparr>peer = p,
             offset_id = (if offset_id_arg \<noteq> 0 then offset_id_arg
                          else (if reverse then 1 else 0)),
             offset_date = datetime_to_timestamp offset_date_arg,
             add_offset = offset_arg * (if reverse then - 1 else 1)
                            - (if reverse then limit_arg else 0),
             limit = limit_arg, max_id = 0, min_id = 0, hash = 0\<rparr>"
  have "get_history self chat_id limit_arg offset_arg offset_id_arg offset_date_arg reverse
          = handed_to_invoke self chat_id reverse ?q 60"
    by (rule get_history_hands_over [OF p])
  moreover have "(offset_id_arg \<noteq> 0 \<longrightarrow> offset_id ?q = offset_id_arg)"
    by simp
  moreover have "(offset_id_arg = 0 \<and> reverse \<longrightarrow> offset_id ?q = 1)"
    by simp
  moreover have "(offset_id_arg = 0 \<and> \<not> reverse \<longrightarrow> offset_id ?q = 0)"
    by simp
  ultimately show ?thesis by blast
qed

text \<open>
  On the echoing client: a caller's 42 comes back as 42, an unset \<^verbatim>\<open>offset_id\<close> as 1 with
  \<^verbatim>\<open>reverse=True\<close> and as 0 with \<^verbatim>\<open>reverse=False\<close>.
\<close>

theorem offset_id_on_the_wire_witness:
  "resolve_peer echo_client (ChatInt 1) = Inr 7
   \<and> (\<exists>q. fst (get_history echo_client (ChatInt 1) 100 0 42 (datetime_fromtimestamp 0) False)
            = Inr [(q, 60)] \<and> offset_id q = 42)
   \<and> fst (get_history echo_client (ChatInt 1) 100 0 42 (datetime_fromtimestamp 0) False)
       = Inr [(\<lparr>peer = 7, offset_id = 42, offset_date = 0, add_offset = 0, limit = 100,
               max_id = 0, min_id = 0, hash = 0\<rparr>, 60)]
   \<and> (\<exists>q. fst (get_history echo_client (ChatInt 1) 100 0 0 (datetime_fromtimestamp 0) True)
            = Inr [(q, 60)] \<and> offset_id q = 1)
   \<and> fst (get_history echo_client (ChatInt 1) 100 0 0 (datetime_fromtimestamp 0) True)
       = Inr [(\<lparr>peer = 7, offset_id = 1, offset_date = 0, add_offset = - 100, limit = 100,
               max_id = 0, min_id = 0, hash = 0\<rparr>, 60)]
   \<and> (\<exists>q. fst (get_history echo_client (ChatInt 1) 100 0 0 (datetime_fromtimestamp 0) False)
            = Inr [(q, 60)] \<and> offset_id q = 0)
   \<and> fst (get_history echo_client (ChatInt 1) 100 0 0 (datetime_fromtimestamp 0) False)
       = Inr [(\<lparr>peer = 7, offset_id = 0, offset_date = 0, add_offset = 0, limit = 100,
               max_id = 0, min_id = 0, hash = 0\<rparr>, 60)]"
proof -
  have p: "resolve_peer echo_client (ChatInt 1) = Inr 7"
    by (simp add: echo_client_def)
  from offset_id_on_the_wire [OF p, of 100 0 42 "datetime_fromtimestamp 0" False]
  have given: "\<exists>q. fst (get_history echo_client (ChatInt 1) 100 0 42 (datetime_fromtimestamp 0) False)
            = Inr [(q, 60)] \<and> offset_id q = 42"
    unfolding echo_client_shows_request by auto
  have given_run: "fst (get_history echo_client (ChatInt 1) 100 0 42 (datetime_fromtimestamp 0) False)
       = Inr [(\<lparr>peer = 7, offset_id = 42, offset_date = 0, add_offset = 0, limit = 100,
               max_id = 0, min_id = 0, hash = 0\<rparr>, 60)]"
    by (simp add: get_history_def echo_client_def Let_def)
  from offset_id_on_the_wire [OF p, of 100 0 0 "datetime_fromtimestamp 0" True]
  have unset_rev: "\<exists>q. fst (get_history echo_client (ChatInt 1) 100 0 0 (datetime_fromtimestamp 0) True)
            = Inr [(q, 60)] \<and> offset_id q = 1"
    unfolding echo_client_shows_request by auto
  have unset_rev_run: "fst (get_history echo_client (ChatInt 1) 100 0 0 (datetime_fromtimestamp 0) True)
       = Inr [(\<lparr>peer = 7, offset_id = 1, offset_date = 0, add_offset = - 100, limit = 100,
               max_id = 0, min_id = 0, hash = 0\<rparr>, 60)]"
    by (simp add: get_history_def echo_client_def Let_def)
  from offset_id_on_the_wire [OF p, of 100 0 0 "datetime_fromtimestamp 0" False]
  have unset_fwd: "\<exists>q. fst (get_history echo_client (ChatInt 1) 100 0 0 (datetime_fromtimestamp 0) False)
            = Inr [(q, 60)] \<and> offset_id q = 0"
    unfolding echo_client_shows_request by auto
  have unset_fwd_run: "fst (get_history echo_client (ChatInt 1) 100 0 0 (datetime_fromtimestamp 0) False)
       = Inr [(\<lparr>peer = 7, offset_id = 0, offset_date = 0, add_offset = 0, limit = 100,
               max_id = 0, min_id = 0, hash = 0\<rparr>, 60)]"
    by (simp add: get_history_def echo_client_def Let_def)
  from p given given_run unset_rev unset_rev_run unset_fwd unset_fwd_run show ?thesis by (intro conjI)
qed



text \<open>
  C4. Every fetch whose peer resolves hands its request to \<^verbatim>\<open>invoke\<close> with the
  threshold 60. Let \<^verbatim>\<open>invoke\<close> be the invocation wrapper over a transport, allowed at
  least one attempt, and let the transport answer the first send of that request with a
  rate-limit signal \<open>w\<close>. If \<open>w\<close> is at most 60, the wrapper sends, suspends for
  \<open>w\<close> and goes on as a fresh run of the same request would from the transport's next
  state: with a second attempt allowed its third act is a send of the same request, and if
  the transport then replies the fetch returns that reply, parsed, after exactly one
  suspend and one retry. If \<open>w\<close> is above 60, the wrapper ends after the one send and the
  fetch fails with \<open>FloodWait w\<close>.
\<close>

theorem flood_wait_threshold:
  "self = session_client (Suc m) send budget t0 resolve parse \<Longrightarrow>
   resolve_peer self chat_id = Inr p \<Longrightarrow>
   \<exists>q. get_history self chat_id limit_arg offset_arg offset_id_arg offset_date_arg reverse
          = handed_to_invoke self chat_id reverse q 60
      \<and> (\<forall>w t1. send q t0 = (RateLimitSignal w, t1) \<and> w \<le> 60 \<longrightarrow>
            InvocationWrapper_invoke (Suc m) send budget q 60 t0
              = (fst (InvocationWrapper_invoke m send budget q 60 t1),
                 Send q # Suspend w # snd (InvocationWrapper_invoke m send budget q 60 t1))
            \<and> (0 < m \<longrightarrow>
                 (\<exists>acts. snd (InvocationWrapper_invoke (Suc m) send budget q 60 t0)
                           = Send q # Suspend w # Send q # acts)))
      \<and> (\<forall>w t1 r t2. send q t0 = (RateLimitSignal w, t1) \<and> w \<le> 60
                       \<and> send q t1 = (Reply r, t2) \<and> 0 < m \<longrightarrow>
            InvocationWrapper_invoke (Suc m) send budget q 60 t0
              = (Some (Inr r), [Send q, Suspend w, Send q])
            \<and> get_history self chat_id limit_arg offset_arg offset_id_arg offset_date_arg
                  reverse
                = (case parse_messages self r of
                     Inl e \<Rightarrow> Inl e
                   | Inr messages \<Rightarrow> Inr (if reverse then rev messages else messages),
                   [ResolvePeer chat_id, Invoke q 60, ParseMessages r]))
      \<and> (\<forall>w t1. send q t0 = (RateLimitSignal w, t1) \<and> 60 < w \<longrightarrow>
            InvocationWrapper_invoke (Suc m) send budget q 60 t0
              = (Some (Inl (FloodWait w)), [Send q])
            \<and> get_history self chat_id limit_arg offset_arg offset_id_arg offset_date_arg
                  reverse
                = (Inl (Raised (FloodWait w)), [ResolvePeer chat_id, Invoke q 60]))"
proof -
  assume self: "self = session_client (Suc m) send budget t0 resolve parse"
    and p: "resolve_peer self chat_id = Inr p"
  let ?q = "\<lparr>peer = p,
             offset_id = (if offset_id_arg \<noteq> 0 then offset_id_arg
                          else (if reverse then 1 else 0)),
             offset_date = datetime_to_timestamp offset_date_arg,
             add_offset = offset_arg * (if reverse then - 1 else 1)
                            - (if reverse then limit_arg else 0),
             limit = limit_arg, max_id = 0, min_id = 0, hash = 0\<rparr>"
  let ?G = "get_history self chat_id limit_arg offset_arg offset_id_arg offset_date_arg reverse"
  have tie: "?G = handed_to_invoke self chat_id reverse ?q 60"
    by (rule get_history_hands_over [OF p])
  have inv: "invoke self ?q 60
      = (case fst (InvocationWrapper_invoke (Suc m) send budget ?q 60 t0) of
           None \<Rightarrow> Inl Pending
         | Some (Inl e) \<Rightarrow> Inl (Raised e)
         | Some (Inr r) \<Rightarrow> Inr r)"
    unfolding self by (simp add: session_client_def)
  have within: "InvocationWrapper_invoke (Suc m) send budget ?q 60 t0
              = (fst (InvocationWrapper_invoke m send budget ?q 60 t1),
                 Send ?q # Suspend w # snd (InvocationWrapper_invoke m send budget ?q 60 t1))
            \<and> (0 < m \<longrightarrow>
                 (\<exists>acts. snd (InvocationWrapper_invoke (Suc m) send budget ?q 60 t0)
                           = Send ?q # Suspend w # Send ?q # acts))"
    if s: "send ?q t0 = (RateLimitSignal w, t1) \<and> w \<le> 60" for w t1
  proof (intro conjI impI)
    from s show step: "InvocationWrapper_invoke (Suc m) send budget ?q 60 t0
              = (fst (InvocationWrapper_invoke m send budget ?q 60 t1),
                 Send ?q # Suspend w # snd (InvocationWrapper_invoke m send budget ?q 60 t1))"
      by (intro signal_within_threshold) simp_all
    assume "0 < m"
    then obtain k where m: "m = Suc k"
      by (cases m) simp_all
    from attempt_starts_with_send [of k send budget ?q 60 t1]
    obtain acts where "snd (InvocationWrapper_invoke (Suc k) send budget ?q 60 t1)
                         = Send ?q # acts"
      by blast
    with step m show "\<exists>acts. snd (InvocationWrapper_invoke (Suc m) send budget ?q 60 t0)
                           = Send ?q # Suspend w # Send ?q # acts"
      by simp
  qed
  have retried: "InvocationWrapper_invoke (Suc m) send budget ?q 60 t0
              = (Some (Inr r), [Send ?q, Suspend w, Send ?q])
            \<and> ?G = (case parse_messages self r of
                     Inl e \<Rightarrow> Inl e
                   | Inr messages \<Rightarrow> Inr (if reverse then rev messages else messages),
                   [ResolvePeer chat_id, Invoke ?q 60, ParseMessages r])"
    if s: "send ?q t0 = (RateLimitSignal w, t1) \<and> w \<le> 60
             \<and> send ?q t1 = (Reply r, t2) \<and> 0 < m" for w t1 r t2
  proof -
    from s obtain k where m: "m = Suc k"
      by (cases m) simp_all
    from s have second: "InvocationWrapper_invoke (Suc k) send budget ?q 60 t1
                           = (Some (Inr r), [Send ?q])"
      by (intro reply_ends_run) simp
    from s have "InvocationWrapper_invoke (Suc (Suc k)) send budget ?q 60 t0
              = (fst (InvocationWrapper_invoke (Suc k) send budget ?q 60 t1),
                 Send ?q # Suspend w # snd (InvocationWrapper_invoke (Suc k) send budget ?q 60
                                               t1))"
      by (intro signal_within_threshold) simp_all
    with second m have run: "InvocationWrapper_invoke (Suc m) send budget ?q 60 t0
              = (Some (Inr r), [Send ?q, Suspend w, Send ?q])"
      by simp
    with inv have "invoke self ?q 60 = Inr r"
      by simp
    with tie run show ?thesis
      by (simp split: sum.splits)
  qed
  have refused: "InvocationWrapper_invoke (Suc m) send budget ?q 60 t0
              = (Some (Inl (FloodWait w)), [Send ?q])
            \<and> ?G = (Inl (Raised (FloodWait w)), [ResolvePeer chat_id, Invoke ?q 60])"
    if s: "send ?q t0 = (RateLimitSignal w, t1) \<and> 60 < w" for w t1
  proof -
    from s have run: "InvocationWrapper_invoke (Suc m) send budget ?q 60 t0
              = (Some (Inl (FloodWait w)), [Send ?q])"
      by (intro signal_above_threshold) simp_all
    with inv have "invoke self ?q 60 = Inl (Raised (FloodWait w))"
      by simp
    with tie run show ?thesis
      by simp
  qed
  from tie within retried refused show ?thesis
    by (intro exI [of _ ?q] conjI allI impI) blast+
qed

text \<open>
  The scenarios of the spec, on the wrapper over a transport that asks for the waits it
  is given and then replies, with two attempts allowed: a wait of 10 seconds gives one
  suspend and one retry, and the fetch returns the reply; a wait of 120 seconds gives
  \<open>FloodWait 120\<close> after a single send.
\<close>

theorem flood_wait_threshold_witness:
  "resolve_peer (session_client (Suc (Suc 0)) flooding_transport 3 [10]
        (resolve_peer demo_client) (parse_messages demo_client)) (ChatInt 1) = Inr 7
   \<and> get_history (session_client (Suc (Suc 0)) flooding_transport 3 [10]
        (resolve_peer demo_client) (parse_messages demo_client)) (ChatInt 1) 100 0 0 (datetime_fromtimestamp 0) False
       = (Inr ''ABC'',
          [ResolvePeer (ChatInt 1),
           Invoke \<lparr>peer = 7 :: nat, offset_id = 0, offset_date = 0, add_offset = 0, limit = 100,
                   max_id = 0, min_id = 0, hash = 0\<rparr> 60,
           ParseMessages ''ABC''])
   \<and> InvocationWrapper_invoke (Suc (Suc 0)) flooding_transport 3
         \<lparr>peer = 7 :: nat, offset_id = 0, offset_date = 0, add_offset = 0, limit = 100,
                   max_id = 0, min_id = 0, hash = 0\<rparr> 60 [10]
       = (Some (Inr ''ABC''),
          [Send \<lparr>peer = 7 :: nat, offset_id = 0, offset_date = 0, add_offset = 0, limit = 100,
                   max_id = 0, min_id = 0, hash = 0\<rparr>,
           Suspend 10,
           Send \<lparr>peer = 7 :: nat, offset_id = 0, offset_date = 0, add_offset = 0, limit = 100,
                   max_id = 0, min_id = 0, hash = 0\<rparr>])
   \<and> get_history (session_client (Suc (Suc 0)) flooding_transport 3 [120]
        (resolve_peer demo_client) (parse_messages demo_client)) (ChatInt 1) 100 0 0 (datetime_fromtimestamp 0) False
       = (Inl (Raised (FloodWait 120)),
          [ResolvePeer (ChatInt 1),
           Invoke \<lparr>peer = 7 :: nat, offset_id = 0, offset_date = 0, add_offset = 0, limit = 100,
                   max_id = 0, min_id = 0, hash = 0\<rparr> 60])
   \<and> InvocationWrapper_invoke (Suc (Suc 0)) flooding_transport 3
         \<lparr>peer = 7 :: nat, offset_id = 0, offset_date = 0, add_offset = 0, limit = 100,
                   max_id = 0, min_id = 0, hash = 0\<rparr> 60 [120]
       = (Some (Inl (FloodWait 120)),
          [Send \<lparr>peer = 7 :: nat, offset_id = 0, offset_date = 0, add_offset = 0, limit = 100,
                   max_id = 0, min_id = 0, hash = 0\<rparr>])"
proof -
  let ?q0 = "\<lparr>peer = 7 :: nat, offset_id = 0, offset_date = 0, add_offset = 0, limit = 100,
              max_id = 0, min_id = 0, hash = 0\<rparr>"
  let ?c10 = "session_client (Suc (Suc 0)) flooding_transport 3 [10]
                (resolve_peer demo_client) (parse_messages demo_client)"
  let ?c120 = "session_client (Suc (Suc 0)) flooding_transport 3 [120]
                 (resolve_peer demo_client) (parse_messages demo_client)"
  have p10: "resolve_peer ?c10 (ChatInt 1) = Inr 7"
    by (simp add: session_client_def demo_client_def)
  have p120: "resolve_peer ?c120 (ChatInt 1) = Inr 7"
    by (simp add: session_client_def demo_client_def)
  have parse10: "parse_messages ?c10 ''ABC'' = Inr ''ABC''"
    by (simp add: session_client_def demo_client_def)
  have sent10: "Invoke ?q0 60
      \<in> set (snd (get_history ?c10 (ChatInt 1) 100 0 0 (datetime_fromtimestamp 0) False))"
    by (simp add: Invoke_in_get_history p10)
  have sent120: "Invoke ?q0 60
      \<in> set (snd (get_history ?c120 (ChatInt 1) 100 0 0 (datetime_fromtimestamp 0) False))"
    by (simp add: Invoke_in_get_history p120)
  from flood_wait_threshold [OF refl p10, of 100 0 0 "datetime_fromtimestamp 0" False]
  obtain q where
    tie: "get_history ?c10 (ChatInt 1) 100 0 0 (datetime_fromtimestamp 0) False
            = handed_to_invoke ?c10 (ChatInt 1) False q 60"
    and retried: "\<And>w t1 r t2.
        flooding_transport q [10] = (RateLimitSignal w, t1) \<and> w \<le> 60
          \<and> flooding_transport q t1 = (Reply r, t2) \<and> 0 < Suc 0 \<Longrightarrow>
        InvocationWrapper_invoke (Suc (Suc 0)) flooding_transport 3 q 60 [10]
          = (Some (Inr r), [Send q, Suspend w, Send q])
        \<and> get_history ?c10 (ChatInt 1) 100 0 0 (datetime_fromtimestamp 0) False
            = (case parse_messages ?c10 r of
                 Inl e \<Rightarrow> Inl e
               | Inr messages \<Rightarrow> Inr (if False then rev messages else messages),
               [ResolvePeer (ChatInt 1), Invoke q 60, ParseMessages r])"
    by blast
  from tie sent10 have q10: "q = ?q0"
    by (auto split: sum.splits)
  have "flooding_transport ?q0 [10] = (RateLimitSignal 10, []) \<and> (10 :: int) \<le> 60
          \<and> flooding_transport ?q0 [] = (Reply ''ABC'', []) \<and> 0 < Suc 0"
    by (simp add: flooding_transport_def)
  from retried [unfolded q10, OF this] parse10
  have one_cycle: "InvocationWrapper_invoke (Suc (Suc 0)) flooding_transport 3 ?q0 60 [10]
          = (Some (Inr ''ABC''), [Send ?q0, Suspend 10, Send ?q0])"
    and returned: "get_history ?c10 (ChatInt 1) 100 0 0 (datetime_fromtimestamp 0) False
          = (Inr ''ABC'', [ResolvePeer (ChatInt 1), Invoke ?q0 60, ParseMessages ''ABC''])"
    by simp_all
  from flood_wait_threshold [OF refl p120, of 100 0 0 "datetime_fromtimestamp 0" False]
  obtain q' where
    tie': "get_history ?c120 (ChatInt 1) 100 0 0 (datetime_fromtimestamp 0) False
            = handed_to_invoke ?c120 (ChatInt 1) False q' 60"
    and refused: "\<And>w t1. flooding_transport q' [120] = (RateLimitSignal w, t1) \<and> 60 < w \<Longrightarrow>
        InvocationWrapper_invoke (Suc (Suc 0)) flooding_transport 3 q' 60 [120]
          = (Some (Inl (FloodWait w)), [Send q'])
        \<and> get_history ?c120 (ChatInt 1) 100 0 0 (datetime_fromtimestamp 0) False
            = (Inl (Raised (FloodWait w)), [ResolvePeer (ChatInt 1), Invoke q' 60])"
    by blast
  from tie' sent120 have q120: "q' = ?q0"
    by (auto split: sum.splits)
  have "flooding_transport ?q0 [120] = (RateLimitSignal 120, []) \<and> (60 :: int) < 120"
    by (simp add: flooding_transport_def)
  from refused [unfolded q120, OF this]
  have no_retry: "InvocationWrapper_invoke (Suc (Suc 0)) flooding_transport 3 ?q0 60 [120]
          = (Some (Inl (FloodWait 120)), [Send ?q0])"
    and failed: "get_history ?c120 (ChatInt 1) 100 0 0 (datetime_fromtimestamp 0) False
          = (Inl (Raised (FloodWait 120)), [ResolvePeer (ChatInt 1), Invoke ?q0 60])"
    by simp_all
  from p10 returned one_cycle failed no_retry show ?thesis
    by blast
qed

text \<open>
  C5. Once the peer resolves, a request is handed to \<^verbatim>\<open>invoke\<close> whatever the limit
  is, also above 100, and it carries the caller's \<^verbatim>\<open>limit\<close> as it is and 0 in
  \<^verbatim>\<open>max_id\<close>, \<^verbatim>\<open>min_id\<close> and \<^verbatim>\<open>hash\<close>.
\<close>

theorem limit_unmodified:
  "resolve_peer self chat_id = Inr p \<Longrightarrow>
   \<exists>q. get_history self chat_id limit_arg offset_arg offset_id_arg offset_date_arg reverse
          = handed_to_invoke self chat_id reverse q 60
      \<and> limit q = limit_arg
      \<and> max_id q = 0
      \<and> min_id q = 0
      \<and> hash q = 0"
proof -
  assume p: "resolve_peer self chat_id = Inr p"
  let ?q = "\<lparr>peer = p,
             offset_id = (if offset_id_arg \<noteq> 0 then offset_id_arg
                          else (if reverse then 1 else 0)),
             offset_date = datetime_to_timestamp offset_date_arg,
             add_offset = offset_arg * (if reverse then - 1 else 1)
                            - (if reverse then limit_arg else 0),
             limit = limit_arg, max_id = 0, min_id = 0, hash = 0\<rparr>"
  have "get_history self chat_id limit_arg offset_arg offset_id_arg offset_date_arg reverse
          = handed_to_invoke self chat_id reverse ?q 60"
    by (rule get_history_hands_over [OF p])
  moreover have "limit ?q = limit_arg"
    by simp
  moreover have "max_id ?q = 0"
    by simp
  moreover have "min_id ?q = 0"
    by simp
  moreover have "hash ?q = 0"
    by simp
  ultimately show ?thesis by blast
qed

text \<open>A limit of 5000 reaches the echoing client as 5000.\<close>

theorem limit_unmodified_witness:
  "resolve_peer echo_client (ChatInt 1) = Inr 7
   \<and> (\<exists>q. fst (get_history echo_client (ChatInt 1) 5000 0 0 (datetime_fromtimestamp 0) False)
            = Inr [(q, 60)] \<and> limit q = 5000 \<and> max_id q = 0 \<and> min_id q = 0 \<and> hash q = 0)
   \<and> fst (get_history echo_client (ChatInt 1) 5000 0 0 (datetime_fromtimestamp 0) False)
       = Inr [(\<lparr>peer = 7, offset_id = 0, offset_date = 0, add_offset = 0, limit = 5000,
               max_id = 0, min_id = 0, hash = 0\<rparr>, 60)]"
proof -
  have p: "resolve_peer echo_client (ChatInt 1) = Inr 7"
    by (simp add: echo_client_def)
  from limit_unmodified [OF p, of 5000 0 0 "datetime_fromtimestamp 0" False]
  have big: "\<exists>q. fst (get_history echo_client (ChatInt 1) 5000 0 0 (datetime_fromtimestamp 0) False)
            = Inr [(q, 60)] \<and> limit q = 5000 \<and> max_id q = 0 \<and> min_id q = 0 \<and> hash q = 0"
    unfolding echo_client_shows_request by auto
  have big_run: "fst (get_history echo_client (ChatInt 1) 5000 0 0 (datetime_fromtimestamp 0) False)
       = Inr [(\<lparr>peer = 7, offset_id = 0, offset_date = 0, add_offset = 0, limit = 5000,
               max_id = 0, min_id = 0, hash = 0\<rparr>, 60)]"
    by (simp add: get_history_def echo_client_def Let_def)
  from p big big_run show ?thesis by (intro conjI)
qed

text \<open>
  C6. A call that names no optional argument runs with \<^verbatim>\<open>limit=100\<close>,
  \<^verbatim>\<open>offset=0\<close>, \<^verbatim>\<open>offset_id=0\<close>, \<^verbatim>\<open>offset_date=datetime.fromtimestamp(0)\<close> and
  \<^verbatim>\<open>reverse=False\<close>, and a call that names one of them leaves the others at those
  values. Once the peer resolves, the request handed to \<^verbatim>\<open>invoke\<close> carries the
  timestamp of the caller's \<^verbatim>\<open>offset_date\<close>; for the default that is 0, and it is 0 for
  no other date.
\<close>

theorem defaults_and_offset_date:
  "call_get_history self chat_id no_kwargs
     = get_history self chat_id 100 0 0 (datetime_fromtimestamp 0) False
   \<and> call_get_history self chat_id (no_kwargs\<lparr>kw_limit := Some l\<rparr>)
       = get_history self chat_id l 0 0 (datetime_fromtimestamp 0) False
   \<and> call_get_history self chat_id (no_kwargs\<lparr>kw_offset := Some off\<rparr>)
       = get_history self chat_id 100 off 0 (datetime_fromtimestamp 0) False
   \<and> call_get_history self chat_id (no_kwargs\<lparr>kw_offset_id := Some oid\<rparr>)
       = get_history self chat_id 100 0 oid (datetime_fromtimestamp 0) False
   \<and> call_get_history self chat_id (no_kwargs\<lparr>kw_offset_date := Some date\<rparr>)
       = get_history self chat_id 100 0 0 date False
   \<and> call_get_history self chat_id (no_kwargs\<lparr>kw_reverse := Some rv\<rparr>)
       = get_history self chat_id 100 0 0 (datetime_fromtimestamp 0) rv
   \<and> (resolve_peer self chat_id = Inr p \<longrightarrow>
        (\<exists>q. get_history self chat_id limit_arg offset_arg offset_id_arg offset_date_arg reverse
               = handed_to_invoke self chat_id reverse q 60
           \<and> offset_date q = datetime_to_timestamp offset_date_arg
           \<and> (offset_date q = 0 \<longleftrightarrow> offset_date_arg = datetime_fromtimestamp 0))
        \<and> (\<exists>q. call_get_history self chat_id no_kwargs
                 = handed_to_invoke self chat_id False q 60
             \<and> offset_date q = 0 \<and> limit q = 100 \<and> add_offset q = 0 \<and> offset_id q = 0))"
proof (intro conjI impI)
  assume p: "resolve_peer self chat_id = Inr p"
  have zero: "datetime_to_timestamp offset_date_arg = 0
                \<longleftrightarrow> offset_date_arg = datetime_fromtimestamp 0"
    by (cases offset_date_arg) simp
  show "\<exists>q. get_history self chat_id limit_arg offset_arg offset_id_arg offset_date_arg reverse
               = handed_to_invoke self chat_id reverse q 60
           \<and> offset_date q = datetime_to_timestamp offset_date_arg
           \<and> (offset_date q = 0 \<longleftrightarrow> offset_date_arg = datetime_fromtimestamp 0)"
    using get_history_hands_over [OF p, of limit_arg offset_arg offset_id_arg offset_date_arg
        reverse] zero
    by (intro exI [of _ "\<lparr>peer = p,
             offset_id = (if offset_id_arg \<noteq> 0 then offset_id_arg
                          else (if reverse then 1 else 0)),
             offset_date = datetime_to_timestamp offset_date_arg,
             add_offset = offset_arg * (if reverse then - 1 else 1)
                            - (if reverse then limit_arg else 0),
             limit = limit_arg, max_id = 0, min_id = 0, hash = 0\<rparr>"]) simp
  have plain: "get_history self chat_id 100 0 0 (datetime_fromtimestamp 0) False
      = handed_to_invoke self chat_id False
          \<lparr>peer = p, offset_id = 0, offset_date = 0, add_offset = 0, limit = 100,
           max_id = 0, min_id = 0, hash = 0\<rparr> 60"
    using get_history_hands_over [OF p, of 100 0 0 "datetime_fromtimestamp 0" False]
    by (simp split: sum.splits)
  show "\<exists>q. call_get_history self chat_id no_kwargs = handed_to_invoke self chat_id False q 60
           \<and> offset_date q = 0 \<and> limit q = 100 \<and> add_offset q = 0 \<and> offset_id q = 0"
    by (intro exI [of _ "\<lparr>peer = p, offset_id = 0, offset_date = 0, add_offset = 0,
                            limit = 100, max_id = 0, min_id = 0, hash = 0\<rparr>"])
       (simp add: call_get_history_def no_kwargs_def plain)
qed (simp_all add: call_get_history_def no_kwargs_def)

text \<open>
  The echoing client is handed \<^verbatim>\<open>offset_date=0\<close> by a call with no optional argument
  and 1500000000 by a call that names that date.
\<close>

theorem defaults_and_offset_date_witness:
  "resolve_peer echo_client (ChatInt 1) = Inr 7
   \<and> (\<exists>q. fst (call_get_history echo_client (ChatInt 1) no_kwargs) = Inr [(q, 60)]
          \<and> offset_date q = 0 \<and> limit q = 100 \<and> add_offset q = 0 \<and> offset_id q = 0)
   \<and> (\<exists>q. fst (call_get_history echo_client (ChatInt 1)
                   (no_kwargs\<lparr>kw_offset_date := Some (datetime_fromtimestamp 1500000000)\<rparr>))
            = Inr [(q, 60)]
          \<and> offset_date q = 1500000000)
   \<and> fst (call_get_history echo_client (ChatInt 1) no_kwargs)
       = Inr [(\<lparr>peer = 7, offset_id = 0, offset_date = 0, add_offset = 0, limit = 100,
                 max_id = 0, min_id = 0, hash = 0\<rparr>, 60)]"
proof -
  have p: "resolve_peer echo_client (ChatInt 1) = Inr 7"
    by (simp add: echo_client_def)
  note c6 = defaults_and_offset_date [where self = echo_client and chat_id = "ChatInt 1"
      and p = 7 and limit_arg = 100 and offset_arg = 0 and offset_id_arg = 0
      and offset_date_arg = "datetime_fromtimestamp 1500000000" and reverse = False
      and date = "datetime_fromtimestamp 1500000000"]
  from c6 p obtain q0 where
    "call_get_history echo_client (ChatInt 1) no_kwargs
       = handed_to_invoke echo_client (ChatInt 1) False q0 60"
    and "offset_date q0 = 0" "limit q0 = 100" "add_offset q0 = 0" "offset_id q0 = 0"
    by blast
  then have plain: "\<exists>q. fst (call_get_history echo_client (ChatInt 1) no_kwargs) = Inr [(q, 60)]
          \<and> offset_date q = 0 \<and> limit q = 100 \<and> add_offset q = 0 \<and> offset_id q = 0"
    unfolding echo_client_shows_request by simp
  from c6 p obtain q1 where
    "get_history echo_client (ChatInt 1) 100 0 0 (datetime_fromtimestamp 1500000000) False
       = handed_to_invoke echo_client (ChatInt 1) False q1 60"
    and "offset_date q1 = datetime_to_timestamp (datetime_fromtimestamp 1500000000)"
    by blast
  moreover from c6
  have "call_get_history echo_client (ChatInt 1)
          (no_kwargs\<lparr>kw_offset_date := Some (datetime_fromtimestamp 1500000000)\<rparr>)
        = get_history echo_client (ChatInt 1) 100 0 0 (datetime_fromtimestamp 1500000000) False"
    by blast
  ultimately
  have dated: "\<exists>q. fst (call_get_history echo_client (ChatInt 1)
                   (no_kwargs\<lparr>kw_offset_date := Some (datetime_fromtimestamp 1500000000)\<rparr>))
            = Inr [(q, 60)]
          \<and> offset_date q = 1500000000"
    unfolding echo_client_shows_request by simp
  have run: "fst (call_get_history echo_client (ChatInt 1) no_kwargs)
       = Inr [(\<lparr>peer = 7, offset_id = 0, offset_date = 0, add_offset = 0, limit = 100,
                 max_id = 0, min_id = 0, hash = 0\<rparr>, 60)]"
    by (simp add: call_get_history_def no_kwargs_def get_history_def echo_client_def Let_def)
  from p plain dated run show ?thesis by (intro conjI)
qed

text \<open>
  C7. An error raised by \<^verbatim>\<open>resolve_peer\<close>, by \<^verbatim>\<open>invoke\<close> or by
  \<^verbatim>\<open>parse_messages\<close> is the error of the call, the same value; a call that fails fails
  with an error one of the three raised; and a call that returns a list returns the whole
  parsed reply, in the order asked for. The result is an error or a list, never both.
\<close>

theorem failures_propagate_unchanged:
  "(resolve_peer self chat_id = Inl e \<longrightarrow>
      get_history self chat_id limit_arg offset_arg offset_id_arg offset_date_arg reverse
        = (Inl e, [ResolvePeer chat_id]))
   \<and> (Invoke q t \<in> set (snd (get_history self chat_id limit_arg offset_arg offset_id_arg
                                 offset_date_arg reverse))
        \<and> invoke self q t = Inl e \<longrightarrow>
      get_history self chat_id limit_arg offset_arg offset_id_arg offset_date_arg reverse
        = (Inl e, [ResolvePeer chat_id, Invoke q t]))
   \<and> (ParseMessages r \<in> set (snd (get_history self chat_id limit_arg offset_arg offset_id_arg
                                      offset_date_arg reverse))
        \<and> parse_messages self r = Inl e \<longrightarrow>
      fst (get_history self chat_id limit_arg offset_arg offset_id_arg offset_date_arg reverse)
        = Inl e)
   \<and> (fst (get_history self chat_id limit_arg offset_arg offset_id_arg offset_date_arg reverse)
        = Inl e \<longrightarrow>
      resolve_peer self chat_id = Inl e
      \<or> (\<exists>q' t'. Invoke q' t' \<in> set (snd (get_history self chat_id limit_arg offset_arg
                                               offset_id_arg offset_date_arg reverse))
                  \<and> invoke self q' t' = Inl e)
      \<or> (\<exists>r'. ParseMessages r' \<in> set (snd (get_history self chat_id limit_arg offset_arg
                                                offset_id_arg offset_date_arg reverse))
               \<and> parse_messages self r' = Inl e))
   \<and> (fst (get_history self chat_id limit_arg offset_arg offset_id_arg offset_date_arg reverse)
        = Inr ms \<longrightarrow>
      (\<exists>p q' r' parsed.
          resolve_peer self chat_id = Inr p \<and> invoke self q' 60 = Inr r'
          \<and> parse_messages self r' = Inr parsed
          \<and> snd (get_history self chat_id limit_arg offset_arg offset_id_arg offset_date_arg
                   reverse) = [ResolvePeer chat_id, Invoke q' 60, ParseMessages r']
          \<and> ms = (if reverse then rev parsed else parsed)))"
proof (intro conjI impI)
  assume "resolve_peer self chat_id = Inl e"
  then show "get_history self chat_id limit_arg offset_arg offset_id_arg offset_date_arg reverse
               = (Inl e, [ResolvePeer chat_id])"
    by (rule resolve_peer_error)
next
  assume "Invoke q t \<in> set (snd (get_history self chat_id limit_arg offset_arg offset_id_arg
                                    offset_date_arg reverse))
          \<and> invoke self q t = Inl e"
  then show "get_history self chat_id limit_arg offset_arg offset_id_arg offset_date_arg reverse
               = (Inl e, [ResolvePeer chat_id, Invoke q t])"
    using invoke_error [of q t self chat_id limit_arg offset_arg offset_id_arg offset_date_arg
        reverse e] by blast
next
  assume "ParseMessages r \<in> set (snd (get_history self chat_id limit_arg offset_arg
                                         offset_id_arg offset_date_arg reverse))
          \<and> parse_messages self r = Inl e"
  then show "fst (get_history self chat_id limit_arg offset_arg offset_id_arg offset_date_arg
                    reverse) = Inl e"
    using parse_messages_error [of r self chat_id limit_arg offset_arg offset_id_arg
        offset_date_arg reverse e] by blast
next
  assume "fst (get_history self chat_id limit_arg offset_arg offset_id_arg offset_date_arg
                 reverse) = Inl e"
  then show "resolve_peer self chat_id = Inl e
      \<or> (\<exists>q' t'. Invoke q' t' \<in> set (snd (get_history self chat_id limit_arg offset_arg
                                               offset_id_arg offset_date_arg reverse))
                  \<and> invoke self q' t' = Inl e)
      \<or> (\<exists>r'. ParseMessages r' \<in> set (snd (get_history self chat_id limit_arg offset_arg
                                                offset_id_arg offset_date_arg reverse))
               \<and> parse_messages self r' = Inl e)"
    by (rule error_has_a_source)
next
  assume "fst (get_history self chat_id limit_arg offset_arg offset_id_arg offset_date_arg
                 reverse) = Inr ms"
  then show "\<exists>p q' r' parsed.
          resolve_peer self chat_id = Inr p \<and> invoke self q' 60 = Inr r'
          \<and> parse_messages self r' = Inr parsed
          \<and> snd (get_history self chat_id limit_arg offset_arg offset_id_arg offset_date_arg
                   reverse) = [ResolvePeer chat_id, Invoke q' 60, ParseMessages r']
          \<and> ms = (if reverse then rev parsed else parsed)"
    by (rule success_is_complete)
qed

text \<open>
  Three failing runs. An unknown chat fails in \<^verbatim>\<open>resolve_peer\<close> and nothing is sent;
  a client whose \<^verbatim>\<open>invoke\<close> raises \<open>FloodWait 120\<close> fails with that; a client whose
  parser raises fails with the parser's error.
\<close>

theorem failures_propagate_unchanged_witness:
  "resolve_peer demo_client (ChatInt 2) = Inl UnknownPeer
   \<and> get_history demo_client (ChatInt 2) 100 0 0 (datetime_fromtimestamp 0) False
       = (Inl UnknownPeer, [ResolvePeer (ChatInt 2)])
   \<and> get_history (demo_client\<lparr>invoke := \<lambda>q t. Inl (FloodWait 120)\<rparr>) (ChatInt 1) 100 0 0
         (datetime_fromtimestamp 0) False
       = (Inl (FloodWait 120),
          [ResolvePeer (ChatInt 1),
           Invoke \<lparr>peer = 7, offset_id = 0, offset_date = 0, add_offset = 0, limit = 100,
                   max_id = 0, min_id = 0, hash = 0\<rparr> 60])
   \<and> ParseMessages ''ABC''
       \<in> set (snd (get_history (demo_client\<lparr>parse_messages := \<lambda>r. Inl (ProtocolError r)\<rparr>)
                      (ChatInt 1) 100 0 0 (datetime_fromtimestamp 0) True))
   \<and> fst (get_history (demo_client\<lparr>parse_messages := \<lambda>r. Inl (ProtocolError r)\<rparr>)
            (ChatInt 1) 100 0 0 (datetime_fromtimestamp 0) True)
       = Inl (ProtocolError ''ABC'')
   \<and> fst (get_history demo_client (ChatInt 1) 100 0 0 (datetime_fromtimestamp 0) True)
       = Inr ''CBA''"
proof -
  let ?q = "\<lparr>peer = 7 :: nat, offset_id = 0, offset_date = 0, add_offset = 0, limit = 100,
             max_id = 0, min_id = 0, hash = 0\<rparr>"
  let ?flooded = "demo_client\<lparr>invoke := \<lambda>q t. Inl (FloodWait 120)\<rparr>"
  let ?garbled = "demo_client\<lparr>parse_messages := \<lambda>r. Inl (ProtocolError r)\<rparr>"
  have unknown: "resolve_peer demo_client (ChatInt 2) = Inl UnknownPeer"
    by (simp add: demo_client_def)
  have sent: "Invoke ?q 60 \<in> set (snd (get_history ?flooded (ChatInt 1) 100 0 0
                                         (datetime_fromtimestamp 0) False))
              \<and> invoke ?flooded ?q 60 = Inl (FloodWait 120)"
    by (simp add: get_history_def demo_client_def)
  have parsed: "ParseMessages ''ABC''
       \<in> set (snd (get_history ?garbled (ChatInt 1) 100 0 0 (datetime_fromtimestamp 0) True))
     \<and> parse_messages ?garbled ''ABC'' = Inl (ProtocolError ''ABC'')"
    by (simp add: get_history_def demo_client_def)
  have ok: "fst (get_history demo_client (ChatInt 1) 100 0 0 (datetime_fromtimestamp 0) True)
              = Inr ''CBA''"
    by (simp add: get_history_def demo_client_def)
  note at_resolve = failures_propagate_unchanged [of demo_client "ChatInt 2" UnknownPeer 100 0 0
      "datetime_fromtimestamp 0" False ?q 60 "''ABC''" "''CBA''",
      THEN conjunct1, THEN mp, OF unknown]
  note at_invoke = failures_propagate_unchanged [of ?flooded "ChatInt 1" "FloodWait 120" 100 0 0
      "datetime_fromtimestamp 0" False ?q 60 "''ABC''" "''CBA''",
      THEN conjunct2, THEN conjunct1, THEN mp, OF sent]
  note at_parse = failures_propagate_unchanged [of ?garbled "ChatInt 1" "ProtocolError ''ABC''"
      100 0 0 "datetime_fromtimestamp 0" True ?q 60 "''ABC''" "''CBA''",
      THEN conjunct2, THEN conjunct2, THEN conjunct1, THEN mp, OF parsed]
  show ?thesis
    by (intro conjI unknown at_resolve at_invoke at_parse ok parsed [THEN conjunct1])
qed

text \<open>
  C8. Two fetches, by any two clients, that are given the same \<^verbatim>\<open>limit\<close>,
  \<^verbatim>\<open>offset\<close>, \<^verbatim>\<open>offset_id\<close>, \<^verbatim>\<open>offset_date\<close> and \<^verbatim>\<open>reverse\<close> and whose chats
  resolve to the same peer hand one and the same request to \<^verbatim>\<open>invoke\<close>, with the same
  threshold; its fields are functions of those arguments and of the peer.
\<close>

theorem wire_parameters_deterministic:
  "resolve_peer self1 chat_id1 = Inr p \<Longrightarrow>
   resolve_peer self2 chat_id2 = Inr p \<Longrightarrow>
   \<exists>q. get_history self1 chat_id1 limit_arg offset_arg offset_id_arg offset_date_arg reverse
          = handed_to_invoke self1 chat_id1 reverse q 60
      \<and> get_history self2 chat_id2 limit_arg offset_arg offset_id_arg offset_date_arg reverse
          = handed_to_invoke self2 chat_id2 reverse q 60
      \<and> peer q = p
      \<and> offset_id q = (if offset_id_arg \<noteq> 0 then offset_id_arg
                        else (if reverse then 1 else 0))
      \<and> offset_date q = datetime_to_timestamp offset_date_arg
      \<and> add_offset q = offset_arg * (if reverse then - 1 else 1)
                          - (if reverse then limit_arg else 0)
      \<and> limit q = limit_arg \<and> max_id q = 0 \<and> min_id q = 0 \<and> hash q = 0"
proof -
  assume p1: "resolve_peer self1 chat_id1 = Inr p" and p2: "resolve_peer self2 chat_id2 = Inr p"
  let ?q = "\<lparr>peer = p,
             offset_id = (if offset_id_arg \<noteq> 0 then offset_id_arg
                          else (if reverse then 1 else 0)),
             offset_date = datetime_to_timestamp offset_date_arg,
             add_offset = offset_arg * (if reverse then - 1 else 1)
                            - (if reverse then limit_arg else 0),
             limit = limit_arg, max_id = 0, min_id = 0, hash = 0\<rparr>"
  have "get_history self1 chat_id1 limit_arg offset_arg offset_id_arg offset_date_arg reverse
          = handed_to_invoke self1 chat_id1 reverse ?q 60"
    by (rule get_history_hands_over [OF p1])
  moreover
  have "get_history self2 chat_id2 limit_arg offset_arg offset_id_arg offset_date_arg reverse
          = handed_to_invoke self2 chat_id2 reverse ?q 60"
    by (rule get_history_hands_over [OF p2])
  ultimately show ?thesis
    by (intro exI [of _ ?q]) simp
qed

text \<open>
  Two echoing clients, the second of which knows the chat under another reference and
  wraps each entry it parses in a list of two: both are handed the same request.
\<close>

theorem wire_parameters_deterministic_witness:
  "resolve_peer echo_client (ChatInt 1) = Inr 7
   \<and> resolve_peer (echo_client\<lparr>parse_messages := \<lambda>r. Inr [r, r]\<rparr>) (ChatStr ''me'') = Inr 7
   \<and> (\<exists>q. fst (get_history echo_client (ChatInt 1) 3 5 0 (datetime_fromtimestamp 9) True)
            = Inr [(q, 60)]
          \<and> fst (get_history (echo_client\<lparr>parse_messages := \<lambda>r. Inr [r, r]\<rparr>) (ChatStr ''me'')
                   3 5 0 (datetime_fromtimestamp 9) True)
            = Inr [(q, 60), (q, 60)]
          \<and> q = \<lparr>peer = 7, offset_id = 1, offset_date = 9, add_offset = - 8, limit = 3,
                  max_id = 0, min_id = 0, hash = 0\<rparr>)"
proof -
  let ?other = "echo_client\<lparr>parse_messages := \<lambda>r. Inr [r, r]\<rparr>"
  have p1: "resolve_peer echo_client (ChatInt 1) = Inr 7"
    by (simp add: echo_client_def)
  have p2: "resolve_peer ?other (ChatStr ''me'') = Inr 7"
    by (simp add: echo_client_def)
  have other: "\<And>c rv q t. handed_to_invoke ?other c rv q t
      = (Inr (if rv then rev [(q, t), (q, t)] else [(q, t), (q, t)]),
         [ResolvePeer c, Invoke q t, ParseMessages (q, t)])"
    by (simp add: echo_client_def)
  from wire_parameters_deterministic [OF p1 p2, of 3 5 0 "datetime_fromtimestamp 9" True]
  obtain q where
    r1: "get_history echo_client (ChatInt 1) 3 5 0 (datetime_fromtimestamp 9) True
           = handed_to_invoke echo_client (ChatInt 1) True q 60"
    and r2: "get_history ?other (ChatStr ''me'') 3 5 0 (datetime_fromtimestamp 9) True
           = handed_to_invoke ?other (ChatStr ''me'') True q 60"
    and fields: "peer q = 7" "offset_id q = 1" "offset_date q = 9" "add_offset q = - 8"
      "limit q = 3" "max_id q = 0" "min_id q = 0" "hash q = 0"
    by auto
  from r1 have e1: "fst (get_history echo_client (ChatInt 1) 3 5 0 (datetime_fromtimestamp 9) True)
                      = Inr [(q, 60)]"
    unfolding echo_client_shows_request by simp
  from r2 have e2: "fst (get_history ?other (ChatStr ''me'') 3 5 0 (datetime_fromtimestamp 9) True)
                      = Inr [(q, 60), (q, 60)]"
    unfolding other by simp
  from fields have q: "q = \<lparr>peer = 7, offset_id = 1, offset_date = 9, add_offset = - 8,
                            limit = 3, max_id = 0, min_id = 0, hash = 0\<rparr>"
    by (cases q) simp
  from e1 e2 q have "\<exists>q. fst (get_history echo_client (ChatInt 1) 3 5 0
                                (datetime_fromtimestamp 9) True) = Inr [(q, 60)]
          \<and> fst (get_history ?other (ChatStr ''me'') 3 5 0 (datetime_fromtimestamp 9) True)
            = Inr [(q, 60), (q, 60)]
          \<and> q = \<lparr>peer = 7, offset_id = 1, offset_date = 9, add_offset = - 8, limit = 3,
                  max_id = 0, min_id = 0, hash = 0\<rparr>"
    by blast
  with p1 p2 show ?thesis by (intro conjI)
qed

text \<open>
  C9. Once the peer resolves, a caller's \<^verbatim>\<open>offset_id\<close> other than 0, negative ones
  included, is the \<^verbatim>\<open>offset_id\<close> of the request handed to \<^verbatim>\<open>invoke\<close>, with
  \<^verbatim>\<open>reverse\<close> set or not. The request differs from the caller's value only when that
  value is 0, \<^verbatim>\<open>reverse\<close> is set and the request carries 1.
\<close>

theorem nonzero_offset_id_kept:
  "resolve_peer self chat_id = Inr p \<Longrightarrow>
   \<exists>q. get_history self chat_id limit_arg offset_arg offset_id_arg offset_date_arg reverse
          = handed_to_invoke self chat_id reverse q 60
      \<and> (offset_id_arg \<noteq> 0 \<longrightarrow> offset_id q = offset_id_arg)
      \<and> (offset_id_arg < 0 \<longrightarrow> offset_id q = offset_id_arg)
      \<and> (offset_id q \<noteq> offset_id_arg \<longrightarrow> offset_id_arg = 0 \<and> reverse \<and> offset_id q = 1)"
proof -
  assume p: "resolve_peer self chat_id = Inr p"
  let ?q = "\<lparr>peer = p,
             offset_id = (if offset_id_arg \<noteq> 0 then offset_id_arg
                          else (if reverse then 1 else 0)),
             offset_date = datetime_to_timestamp offset_date_arg,
             add_offset = offset_arg * (if reverse then - 1 else 1)
                            - (if reverse then limit_arg else 0),
             limit = limit_arg, max_id = 0, min_id = 0, hash = 0\<rparr>"
  have "get_history self chat_id limit_arg offset_arg offset_id_arg offset_date_arg reverse
          = handed_to_invoke self chat_id reverse ?q 60"
    by (rule get_history_hands_over [OF p])
  moreover have "(offset_id_arg \<noteq> 0 \<longrightarrow> offset_id ?q = offset_id_arg)"
    by simp
  moreover have "(offset_id_arg < 0 \<longrightarrow> offset_id ?q = offset_id_arg)"
    by simp
  moreover have "(offset_id ?q \<noteq> offset_id_arg \<longrightarrow> offset_id_arg = 0 \<and> reverse \<and> offset_id ?q = 1)"
    by simp
  ultimately show ?thesis by blast
qed

text \<open>A caller's -5 reaches the echoing client as -5 in both modes.\<close>

theorem nonzero_offset_id_kept_witness:
  "resolve_peer echo_client (ChatInt 1) = Inr 7
   \<and> (\<exists>q. fst (get_history echo_client (ChatInt 1) 100 0 (- 5) (datetime_fromtimestamp 0) True)
            = Inr [(q, 60)] \<and> offset_id q = - 5)
   \<and> fst (get_history echo_client (ChatInt 1) 100 0 (- 5) (datetime_fromtimestamp 0) True)
       = Inr [(\<lparr>peer = 7, offset_id = - 5, offset_date = 0, add_offset = - 100, limit = 100,
               max_id = 0, min_id = 0, hash = 0\<rparr>, 60)]
   \<and> (\<exists>q. fst (get_history echo_client (ChatInt 1) 100 0 (- 5) (datetime_fromtimestamp 0) False)
            = Inr [(q, 60)] \<and> offset_id q = - 5)
   \<and> fst (get_history echo_client (ChatInt 1) 100 0 (- 5) (datetime_fromtimestamp 0) False)
       = Inr [(\<lparr>peer = 7, offset_id = - 5, offset_date = 0, add_offset = 0, limit = 100,
               max_id = 0, min_id = 0, hash = 0\<rparr>, 60)]"
proof -
  have p: "resolve_peer echo_client (ChatInt 1) = Inr 7"
    by (simp add: echo_client_def)
  from nonzero_offset_id_kept [OF p, of "100" "0" "- 5" "datetime_fromtimestamp 0" True]
  have bwd: "\<exists>q. fst (get_history echo_client (ChatInt 1) 100 0 (- 5) (datetime_fromtimestamp 0) True)
            = Inr [(q, 60)] \<and> offset_id q = - 5"
    unfolding echo_client_shows_request by auto
  have bwd_run: "fst (get_history echo_client (ChatInt 1) 100 0 (- 5) (datetime_fromtimestamp 0) True)
       = Inr [(\<lparr>peer = 7, offset_id = - 5, offset_date = 0, add_offset = - 100, limit = 100,
               max_id = 0, min_id = 0, hash = 0\<rparr>, 60)]"
    by (simp add: get_history_def echo_client_def Let_def)
  from nonzero_offset_id_kept [OF p, of "100" "0" "- 5" "datetime_fromtimestamp 0" False]
  have fwd: "\<exists>q. fst (get_history echo_client (ChatInt 1) 100 0 (- 5) (datetime_fromtimestamp 0) False)
            = Inr [(q, 60)] \<and> offset_id q = - 5"
    unfolding echo_client_shows_request by auto
  have fwd_run: "fst (get_history echo_client (ChatInt 1) 100 0 (- 5) (datetime_fromtimestamp 0) False)
       = Inr [(\<lparr>peer = 7, offset_id = - 5, offset_date = 0, add_offset = 0, limit = 100,
               max_id = 0, min_id = 0, hash = 0\<rparr>, 60)]"
    by (simp add: get_history_def echo_client_def Let_def)
  from p bwd bwd_run fwd fwd_run show ?thesis by (intro conjI)
qed

text \<open>
  C10. Fix the client, the chat, \<^verbatim>\<open>limit\<close>, \<^verbatim>\<open>offset\<close>, \<^verbatim>\<open>offset_id\<close> and
  \<^verbatim>\<open>offset_date\<close>, and let the peer resolve. The request handed to \<^verbatim>\<open>invoke\<close> with
  \<^verbatim>\<open>reverse=True\<close> and the one handed over with \<^verbatim>\<open>reverse=False\<close> agree on
  \<^verbatim>\<open>peer\<close>, \<^verbatim>\<open>offset_date\<close>, \<^verbatim>\<open>limit\<close>, \<^verbatim>\<open>max_id\<close>, \<^verbatim>\<open>min_id\<close> and
  \<^verbatim>\<open>hash\<close> and go with the same threshold: they differ in \<^verbatim>\<open>offset_id\<close> and
  \<^verbatim>\<open>add_offset\<close> at most, and not in \<^verbatim>\<open>offset_id\<close> unless the caller left it at 0.
\<close>

theorem reverse_leaves_other_fields:
  "resolve_peer self chat_id = Inr p \<Longrightarrow>
   \<exists>q_rev q_fwd.
      get_history self chat_id limit_arg offset_arg offset_id_arg offset_date_arg True
        = handed_to_invoke self chat_id True q_rev 60
      \<and> get_history self chat_id limit_arg offset_arg offset_id_arg offset_date_arg False
        = handed_to_invoke self chat_id False q_fwd 60
      \<and> peer q_rev = peer q_fwd \<and> offset_date q_rev = offset_date q_fwd
      \<and> limit q_rev = limit q_fwd \<and> max_id q_rev = max_id q_fwd
      \<and> min_id q_rev = min_id q_fwd \<and> hash q_rev = hash q_fwd
      \<and> q_rev = q_fwd\<lparr>offset_id := offset_id q_rev, add_offset := add_offset q_rev\<rparr>
      \<and> (offset_id_arg \<noteq> 0 \<longrightarrow> offset_id q_rev = offset_id q_fwd)"
proof -
  assume p: "resolve_peer self chat_id = Inr p"
  let ?q_rev = "\<lparr>peer = p,
                 offset_id = (if offset_id_arg \<noteq> 0 then offset_id_arg else 1),
                 offset_date = datetime_to_timestamp offset_date_arg,
                 add_offset = - offset_arg - limit_arg,
                 limit = limit_arg, max_id = 0, min_id = 0, hash = 0\<rparr>"
  let ?q_fwd = "\<lparr>peer = p,
                 offset_id = offset_id_arg,
                 offset_date = datetime_to_timestamp offset_date_arg,
                 add_offset = offset_arg,
                 limit = limit_arg, max_id = 0, min_id = 0, hash = 0\<rparr>"
  have "get_history self chat_id limit_arg offset_arg offset_id_arg offset_date_arg True
          = handed_to_invoke self chat_id True ?q_rev 60"
    using get_history_hands_over [OF p, of limit_arg offset_arg offset_id_arg offset_date_arg
        True] by (simp split: sum.splits)
  moreover
  have "get_history self chat_id limit_arg offset_arg offset_id_arg offset_date_arg False
          = handed_to_invoke self chat_id False ?q_fwd 60"
    using get_history_hands_over [OF p, of limit_arg offset_arg offset_id_arg offset_date_arg
        False] by (cases "offset_id_arg = 0") (simp_all split: sum.splits)
  ultimately show ?thesis
    by (intro exI [of _ ?q_rev] exI [of _ ?q_fwd]) simp
qed

text \<open>
  The echoing client with \<^verbatim>\<open>limit=3, offset=5\<close> and the date 9: the two requests it is
  handed differ in \<^verbatim>\<open>offset_id\<close> (1 and 0) and \<^verbatim>\<open>add_offset\<close> (-8 and 5) only.
\<close>

theorem reverse_leaves_other_fields_witness:
  "resolve_peer echo_client (ChatInt 1) = Inr 7
   \<and> (\<exists>q_rev q_fwd.
         fst (get_history echo_client (ChatInt 1) 3 5 0 (datetime_fromtimestamp 9) True)
           = Inr [(q_rev, 60)]
         \<and> fst (get_history echo_client (ChatInt 1) 3 5 0 (datetime_fromtimestamp 9) False)
           = Inr [(q_fwd, 60)]
         \<and> peer q_rev = peer q_fwd \<and> offset_date q_rev = offset_date q_fwd
         \<and> limit q_rev = limit q_fwd \<and> max_id q_rev = max_id q_fwd
         \<and> min_id q_rev = min_id q_fwd \<and> hash q_rev = hash q_fwd)
   \<and> fst (get_history echo_client (ChatInt 1) 3 5 0 (datetime_fromtimestamp 9) True)
       = Inr [(\<lparr>peer = 7, offset_id = 1, offset_date = 9, add_offset = - 8, limit = 3,
                 max_id = 0, min_id = 0, hash = 0\<rparr>, 60)]
   \<and> fst (get_history echo_client (ChatInt 1) 3 5 0 (datetime_fromtimestamp 9) False)
       = Inr [(\<lparr>peer = 7, offset_id = 0, offset_date = 9, add_offset = 5, limit = 3,
                 max_id = 0, min_id = 0, hash = 0\<rparr>, 60)]"
proof -
  have p: "resolve_peer echo_client (ChatInt 1) = Inr 7"
    by (simp add: echo_client_def)
  from reverse_leaves_other_fields [OF p, of 3 5 0 "datetime_fromtimestamp 9"]
  obtain q_rev q_fwd where
    "get_history echo_client (ChatInt 1) 3 5 0 (datetime_fromtimestamp 9) True
       = handed_to_invoke echo_client (ChatInt 1) True q_rev 60"
    and "get_history echo_client (ChatInt 1) 3 5 0 (datetime_fromtimestamp 9) False
       = handed_to_invoke echo_client (ChatInt 1) False q_fwd 60"
    and "peer q_rev = peer q_fwd" "offset_date q_rev = offset_date q_fwd"
      "limit q_rev = limit q_fwd" "max_id q_rev = max_id q_fwd"
      "min_id q_rev = min_id q_fwd" "hash q_rev = hash q_fwd"
    by blast
  then have "fst (get_history echo_client (ChatInt 1) 3 5 0 (datetime_fromtimestamp 9) True)
           = Inr [(q_rev, 60)]
         \<and> fst (get_history echo_client (ChatInt 1) 3 5 0 (datetime_fromtimestamp 9) False)
           = Inr [(q_fwd, 60)]
         \<and> peer q_rev = peer q_fwd \<and> offset_date q_rev = offset_date q_fwd
         \<and> limit q_rev = limit q_fwd \<and> max_id q_rev = max_id q_fwd
         \<and> min_id q_rev = min_id q_fwd \<and> hash q_rev = hash q_fwd"
    unfolding echo_client_shows_request by simp
  then have both: "\<exists>q_rev q_fwd.
         fst (get_history echo_client (ChatInt 1) 3 5 0 (datetime_fromtimestamp 9) True)
           = Inr [(q_rev, 60)]
         \<and> fst (get_history echo_client (ChatInt 1) 3 5 0 (datetime_fromtimestamp 9) False)
           = Inr [(q_fwd, 60)]
         \<and> peer q_rev = peer q_fwd \<and> offset_date q_rev = offset_date q_fwd
         \<and> limit q_rev = limit q_fwd \<and> max_id q_rev = max_id q_fwd
         \<and> min_id q_rev = min_id q_fwd \<and> hash q_rev = hash q_fwd"
    by blast
  have bwd: "fst (get_history echo_client (ChatInt 1) 3 5 0 (datetime_fromtimestamp 9) True)
       = Inr [(\<lparr>peer = 7, offset_id = 1, offset_date = 9, add_offset = - 8, limit = 3,
                 max_id = 0, min_id = 0, hash = 0\<rparr>, 60)]"
    by (simp add: get_history_def echo_client_def Let_def)
  have fwd: "fst (get_history echo_client (ChatInt 1) 3 5 0 (datetime_fromtimestamp 9) False)
       = Inr [(\<lparr>peer = 7, offset_id = 0, offset_date = 9, add_offset = 5, limit = 3,
                 max_id = 0, min_id = 0, hash = 0\<rparr>, 60)]"
    by (simp add: get_history_def echo_client_def Let_def)
  from p both bwd fwd show ?thesis by (intro conjI)
qed

end
